theory Spec2Isabelle
  imports Main "HOL-Library.Word" "HOL-Library.Sublist"
begin

section \<open>JavaScript strings and errors\<close>

text \<open>
  A JavaScript string is a sequence of UTF-16 code units; \<open>length\<close>, \<open>includes\<close> and
  \<open>trim\<close> all work on code units. String literals of the source are written
  \<open>lit ''...''\<close>.
\<close>

type_synonym code_unit = "16 word"
type_synonym jsstring = "code_unit list"

definition lit :: "string \<Rightarrow> jsstring" where
  "lit s = map of_char s"

text \<open>An \<open>Error\<close> object as the \<open>catch\<close> block of \<open>scrapeUrl\<close> reads it.\<close>

record js_error =
  err_name :: jsstring
  err_message :: jsstring

text \<open>
  \<open>String.prototype.trim\<close> removes WhiteSpace and LineTerminator code units from both
  ends: TAB, LF, VT, FF, CR, SP, NBSP, U+1680, U+2000..U+200A, U+2028, U+2029, U+202F,
  U+205F, U+3000 and U+FEFF.
\<close>

definition is_ws :: "code_unit \<Rightarrow> bool" where
  "is_ws c =
     (c \<in> set [0x0009, 0x000A, 0x000B, 0x000C, 0x000D, 0x0020, 0x00A0, 0x1680,
               0x2028, 0x2029, 0x202F, 0x205F, 0x3000, 0xFEFF]
      \<or> (0x2000 \<le> c \<and> c \<le> 0x200A))"

definition trim :: "jsstring \<Rightarrow> jsstring" where
  "trim s = rev (dropWhile is_ws (rev (dropWhile is_ws s)))"

text \<open>\<open>String.prototype.includes\<close>: the needle occurs at some position of the string.\<close>

fun includes_js :: "'a list \<Rightarrow> 'a list \<Rightarrow> bool" where
  "includes_js [] needle = (needle = [])"
| "includes_js (c # cs) needle = (prefix needle (c # cs) \<or> includes_js cs needle)"

text \<open>
  Truthiness of a value that is \<open>undefined\<close>/\<open>null\<close> (\<open>None\<close>) or a string: only a
  non-empty string is truthy.
\<close>

definition truthy :: "jsstring option \<Rightarrow> bool" where
  "truthy v = (case v of None \<Rightarrow> False | Some s \<Rightarrow> s \<noteq> [])"

text \<open>Number-to-string conversion of a non-negative integer (the HTTP status).\<close>

fun show_nat :: "nat \<Rightarrow> jsstring" where
  "show_nat n =
     (if n < 10 then [of_nat (48 + n)]
      else show_nat (n div 10) @ [of_nat (48 + n mod 10)])"

declare show_nat.simps [simp del]

section \<open>The network, the HTML parser and the URL constructor\<close>

text \<open>
  What \<open>await response.text()\<close> comes to: the body text, an error thrown while the body is
  read, or nothing at all when the body never ends (a server that sends its headers and
  then keeps the connection busy). The timer of \<open>scrapeUrl\<close> is cleared as soon as \<open>fetch\<close>
  has resolved, so the read of the body is not under the 15 s limit.
\<close>

datatype body_read =
    BodyText jsstring
  | BodyError js_error
  | BodyPending

text \<open>
  What \<open>fetch\<close> hands back: the status line and the fate of the body read.
  \<open>response.ok\<close> is derived from the status.
\<close>

record response =
  resp_status :: nat
  resp_statusText :: jsstring
  resp_text :: body_read

definition resp_ok :: "response \<Rightarrow> bool" where
  "resp_ok r = (200 \<le> resp_status r \<and> resp_status r \<le> 299)"

text \<open>
  What the network does with one request when nobody aborts it: it answers after some
  milliseconds, fails after some milliseconds (DNS, connection, TLS, malformed URL), or
  stays silent.
\<close>

datatype net_event =
    Responds nat response
  | Breaks nat js_error
  | Silent

text \<open>The \<open>DOMException\<close> a fetch rejects with when its signal is aborted.\<close>

definition abort_error :: js_error where
  "abort_error =
     \<lparr>err_name = lit ''AbortError'', err_message = lit ''This operation was aborted''\<rparr>"

definition timeout_ms :: nat where
  "timeout_ms = 15000"

text \<open>
  \<open>setTimeout(() => controller.abort(), ms)\<close> followed by
  \<open>await fetch(url, { signal: controller.signal })\<close>: the request settles as the network
  decides when that happens before the timer fires, and rejects with the abort error
  otherwise (a settlement in the very millisecond of the timer is counted as too late).
  Once the request has settled the timer is cleared or fires without effect.
\<close>

definition fetch_signal :: "nat \<Rightarrow> net_event \<Rightarrow> js_error + response" where
  "fetch_signal ms ev =
     (case ev of
        Responds t r \<Rightarrow> if t < ms then Inr r else Inl abort_error
      | Breaks t e \<Rightarrow> if t < ms then Inl e else Inl abort_error
      | Silent \<Rightarrow> Inl abort_error)"

text \<open>
  The part of a parsed document that the selectors of \<open>scrapeUrl\<close> read. For each
  \<open>article.product_pod\<close>, in document order: the \<open>title\<close> and \<open>href\<close> attributes of its
  \<open>h3 a\<close> (\<open>undefined\<close> when the element or the attribute is missing) and the text of its
  \<open>.product_price .price_color\<close> (the empty string when there is none). For the document:
  the text of every \<open>h1\<close>, in document order.
\<close>

record pod =
  h3a_title :: "jsstring option"
  h3a_href :: "jsstring option"
  price_text :: jsstring

record document =
  product_pods :: "pod list"
  h1_texts :: "jsstring list"

text \<open>
  The collaborators of one \<open>scrapeUrl\<close> call: the network, \<open>cheerio.load\<close> with the
  queries above, and \<open>new URL(relative, base).href\<close>, which throws a \<open>TypeError\<close> when
  the reference cannot be resolved.
\<close>

record env =
  fetch :: "jsstring \<Rightarrow> net_event"
  cheerio_load :: "jsstring \<Rightarrow> js_error + document"
  URL_href :: "jsstring \<Rightarrow> jsstring \<Rightarrow> js_error + jsstring"

section \<open>scrapeUrl\<close>

text \<open>A scraped record is an object literal: its keys in order, with string values.\<close>

type_synonym scraped = "(jsstring \<times> jsstring) list"

datatype outcome =
    Success jsstring "scraped list"
  | Failed jsstring jsstring

fun outcome_url :: "outcome \<Rightarrow> jsstring" where
  "outcome_url (Success url records) = url"
| "outcome_url (Failed url error) = url"


text \<open>\<open>relativeLink ? new URL(relativeLink, url).href : null\<close>\<close>

definition absoluteLink_of :: "env \<Rightarrow> jsstring \<Rightarrow> jsstring option \<Rightarrow> js_error + jsstring option" where
  "absoluteLink_of env url relativeLink =
     (case relativeLink of
        None \<Rightarrow> Inr None
      | Some r \<Rightarrow>
          if r = [] then Inr None
          else (case URL_href env r url of Inl e \<Rightarrow> Inl e | Inr h \<Rightarrow> Inr (Some h)))"

text \<open>
  The callback of \<open>$('article.product_pod').each\<close>: the link is resolved first, then the
  three values are tested for truthiness, then title and price are trimmed and the record
  is pushed.
\<close>

definition book_callback :: "env \<Rightarrow> jsstring \<Rightarrow> pod \<Rightarrow> scraped list \<Rightarrow> js_error + scraped list" where
  "book_callback env url el records =
     (case absoluteLink_of env url (h3a_href el) of
        Inl e \<Rightarrow> Inl e
      | Inr absoluteLink \<Rightarrow>
          if truthy (h3a_title el) \<and> truthy (Some (price_text el)) \<and> truthy absoluteLink then
            (case (h3a_title el, absoluteLink) of
               (Some title, Some link) \<Rightarrow>
                 Inr (records @ [[(lit ''title'', trim title),
                                  (lit ''price'', trim (price_text el)),
                                  (lit ''link'', link)]])
             | _ \<Rightarrow> Inr records)
          else Inr records)"

fun each_pod :: "env \<Rightarrow> jsstring \<Rightarrow> pod list \<Rightarrow> scraped list \<Rightarrow> js_error + scraped list" where
  "each_pod env url [] records = Inr records"
| "each_pod env url (el # els) records =
     (case book_callback env url el records of
        Inl e \<Rightarrow> Inl e
      | Inr records' \<Rightarrow> each_pod env url els records')"

text \<open>\<open>$('h1').first().text().trim()\<close> and the record pushed when it is truthy.\<close>

definition genericTitle :: "document \<Rightarrow> jsstring" where
  "genericTitle doc = trim (case h1_texts doc of [] \<Rightarrow> [] | t # _ \<Rightarrow> t)"

definition generic_records :: "document \<Rightarrow> scraped list" where
  "generic_records doc =
     (if genericTitle doc \<noteq> [] then
        [[(lit ''title'', genericTitle doc), (lit ''source'', lit ''Generic H1 scrape'')]]
      else [])"

definition books_host :: jsstring where
  "books_host = lit ''books.toscrape.com''"

text \<open>
  The \<open>try\<close> block of \<open>scrapeUrl\<close>: \<open>Some (Inr v)\<close> is the value it returns, \<open>Some (Inl e)\<close>
  an exception leaving it, and \<open>None\<close> says that control never leaves it, because the
  awaited body read stays pending.
\<close>

definition scrapeUrl_try :: "env \<Rightarrow> jsstring \<Rightarrow> (js_error + outcome) option" where
  "scrapeUrl_try env url =
     (case fetch_signal timeout_ms (fetch env url) of
        Inl e \<Rightarrow> Some (Inl e)
      | Inr response \<Rightarrow>
          if \<not> resp_ok response then
            Some (Inl \<lparr>err_name = lit ''Error'',
                       err_message = lit ''Failed to fetch '' @ url @ lit '': ''
                         @ show_nat (resp_status response) @ lit '' ''
                         @ resp_statusText response\<rparr>)
          else
            (case resp_text response of
               BodyPending \<Rightarrow> None
             | BodyError e \<Rightarrow> Some (Inl e)
             | BodyText html \<Rightarrow>
                 (case cheerio_load env html of
                    Inl e \<Rightarrow> Some (Inl e)
                  | Inr doc \<Rightarrow>
                      if includes_js url books_host then
                        (case each_pod env url (product_pods doc) [] of
                           Inl e \<Rightarrow> Some (Inl e)
                         | Inr records \<Rightarrow> Some (Inr (Success url records)))
                      else Some (Inr (Success url (generic_records doc))))))"

text \<open>The \<open>catch\<close> block: the message it chooses, and the object it returns.\<close>

definition catch_message :: "js_error \<Rightarrow> jsstring" where
  "catch_message error =
     (if err_name error = lit ''AbortError'' then lit ''Request timed out''
      else err_message error)"

definition catch_outcome :: "jsstring \<Rightarrow> js_error \<Rightarrow> outcome" where
  "catch_outcome url error = Failed url (catch_message error)"

text \<open>
  \<open>scrapeUrl\<close> as a JavaScript function: \<open>Some (Inr v)\<close> is the value it returns,
  \<open>Some (Inl e)\<close> would be an exception it throws to its caller, and \<open>None\<close> is a call that
  never returns.
\<close>

definition scrapeUrl :: "env \<Rightarrow> jsstring \<Rightarrow> (js_error + outcome) option" where
  "scrapeUrl env url =
     (case scrapeUrl_try env url of
        None \<Rightarrow> None
      | Some (Inr result) \<Rightarrow> Some (Inr result)
      | Some (Inl error) \<Rightarrow> Some (Inr (catch_outcome url error)))"

section \<open>The POST /scrape handler\<close>
















section \<open>The page script: redisplay of stored results\<close>

text \<open>
  The collaborators of the page script, for parsed values of any type \<open>'v\<close>:
  \<open>JSON.parse\<close>, which throws a \<open>SyntaxError\<close> on text that is not JSON, and
  \<open>displayResults\<close>, of which the load routine sees only the markup it leaves in the
  results area or the exception it throws; it does not touch \<open>localStorage\<close>.
\<close>

record 'v page_env =
  JSON_parse :: "jsstring \<Rightarrow> js_error + 'v"
  displayResults :: "'v \<Rightarrow> js_error + jsstring"

text \<open>
  The state the load routine works on: the \<open>localStorage\<close> item under the key
  \<open>scrapedResults\<close> (\<open>None\<close> when \<open>getItem\<close> returns \<open>null\<close>) and the \<open>innerHTML\<close> of the
  results area.
\<close>

record page =
  stored :: "jsstring option"
  resultsArea :: jsstring

definition corrupted_message :: jsstring where
  "corrupted_message =
     lit ''<p class=\"error-message\">Could not load previously saved results. They might be corrupted.</p>''"

definition initial_message :: jsstring where
  "initial_message =
     lit ''<p>Enter URLs above and click \"Scrape Websites\" to see results. Previously scraped data will be saved here.</p>''"

text \<open>
  \<open>if (storedResults)\<close> is false for \<open>null\<close> and for the empty string. Inside the \<open>try\<close>,
  an exception of \<open>JSON.parse\<close> or of \<open>displayResults\<close> reaches the same \<open>catch\<close>, which
  overwrites the results area and removes the item.
\<close>

definition loadAndDisplayStoredResults :: "'v page_env \<Rightarrow> page \<Rightarrow> page" where
  "loadAndDisplayStoredResults penv pg =
     (case stored pg of
        None \<Rightarrow> pg\<lparr>resultsArea := initial_message\<rparr>
      | Some storedResults \<Rightarrow>
          if storedResults = [] then pg\<lparr>resultsArea := initial_message\<rparr>
          else
            (case JSON_parse penv storedResults of
               Inl error \<Rightarrow> pg\<lparr>resultsArea := corrupted_message, stored := None\<rparr>
             | Inr results \<Rightarrow>
                 (case displayResults penv results of
                    Inl error \<Rightarrow> pg\<lparr>resultsArea := corrupted_message, stored := None\<rparr>
                  | Inr html \<Rightarrow> pg\<lparr>resultsArea := html\<rparr>)))"

section \<open>What the books policy is expected to extract\<close>

text \<open>
  A string is blank when it holds nothing but white space. A product container lacks a
  required field when its title or its href is undefined or empty, or its price text is
  empty.
\<close>

definition blank :: "jsstring \<Rightarrow> bool" where
  "blank s = list_all is_ws s"

definition lacks_field :: "pod \<Rightarrow> bool" where
  "lacks_field el =
     (\<not> truthy (h3a_title el) \<or> price_text el = [] \<or> \<not> truthy (h3a_href el))"

text \<open>
  The records one container contributes, stated without the loop and without exceptions:
  one record when title, price, href and the resolved link are all present and non-empty,
  none otherwise.
\<close>

definition pod_records :: "env \<Rightarrow> jsstring \<Rightarrow> pod \<Rightarrow> scraped list" where
  "pod_records env url el =
     (case (h3a_title el, h3a_href el) of
        (Some t, Some h) \<Rightarrow>
          (if t = [] \<or> price_text el = [] \<or> h = [] then []
           else
             (case URL_href env h url of
                Inl e \<Rightarrow> []
              | Inr l \<Rightarrow>
                  if l = [] then []
                  else [[(lit ''title'', trim t), (lit ''price'', trim (price_text el)),
                         (lit ''link'', l)]]))
      | _ \<Rightarrow> [])"

text \<open>Every href of the document that is present and non-empty can be resolved.\<close>

definition hrefs_resolve :: "env \<Rightarrow> jsstring \<Rightarrow> pod list \<Rightarrow> bool" where
  "hrefs_resolve env url pods =
     list_all (\<lambda>el. case h3a_href el of
                      None \<Rightarrow> True
                    | Some h \<Rightarrow> h = [] \<or> (case URL_href env h url of Inl e \<Rightarrow> False | Inr l \<Rightarrow> True))
       pods"

section \<open>Calls that complete\<close>

text \<open>
  The body read of a call ends, if the call gets to it: whenever the request is answered
  in time with a 2xx status, reading the body comes to the text or to an error.
\<close>

definition body_read_ends :: "env \<Rightarrow> jsstring \<Rightarrow> bool" where
  "body_read_ends env url =
     (case fetch env url of
        Responds t r \<Rightarrow> t < 15000 \<and> resp_ok r \<longrightarrow> resp_text r \<noteq> BodyPending
      | Breaks t e \<Rightarrow> True
      | Silent \<Rightarrow> True)"

section \<open>Sample inputs\<close>

text \<open>
  Concrete collaborators and documents on which the theorems below are instantiated. The
  URL constructor agrees with the real one on the references used here: a path-relative
  reference is appended to a base that ends in a slash, and a network-path reference
  whose host contains a space (\<open>//a b/\<close>) is rejected with a \<open>TypeError\<close>. The parser
  stands in for \<open>cheerio.load\<close> with the queries of \<open>scrapeUrl\<close>; on one input it overflows
  the stack, as a parser does on markup nested too deep.
\<close>

definition invalid_url :: js_error where
  "invalid_url = \<lparr>err_name = lit ''TypeError'', err_message = lit ''Invalid URL''\<rparr>"

definition sample_resolve :: "jsstring \<Rightarrow> jsstring \<Rightarrow> js_error + jsstring" where
  "sample_resolve relative base =
     (if relative = lit ''//a b/'' then Inl invalid_url else Inr (base @ relative))"

definition attic_pod :: pod where
  "attic_pod =
     \<lparr>h3a_title = Some (lit ''A Light in the Attic''),
      h3a_href = Some (lit ''catalogue/a-light-in-the-attic_1000/index.html''),
      price_text = 0xA3 # lit ''51.77''\<rparr>"

definition unpriced_pod :: pod where
  "unpriced_pod =
     \<lparr>h3a_title = Some (lit ''Tipping the Velvet''),
      h3a_href = Some (lit ''catalogue/tipping-the-velvet_999/index.html''),
      price_text = []\<rparr>"

definition blank_title_pod :: pod where
  "blank_title_pod =
     \<lparr>h3a_title = Some (lit ''  ''),
      h3a_href = Some (lit ''catalogue/soumission_998/index.html''),
      price_text = 0xA3 # lit ''50.10''\<rparr>"

definition untitled_bad_href_pod :: pod where
  "untitled_bad_href_pod =
     \<lparr>h3a_title = None,
      h3a_href = Some (lit ''//a b/''),
      price_text = 0xA3 # lit ''47.82''\<rparr>"

definition books_doc :: document where
  "books_doc =
     \<lparr>product_pods = [attic_pod, unpriced_pod, blank_title_pod],
      h1_texts = [lit ''All products'']\<rparr>"

definition broken_doc :: document where
  "broken_doc = \<lparr>product_pods = [attic_pod, untitled_bad_href_pod], h1_texts = []\<rparr>"

definition example_doc :: document where
  "example_doc = \<lparr>product_pods = [], h1_texts = [lit '' Example Domain '', lit ''More'']\<rparr>"

definition empty_doc :: document where
  "empty_doc = \<lparr>product_pods = [], h1_texts = []\<rparr>"

definition ok_response :: "jsstring \<Rightarrow> response" where
  "ok_response html =
     \<lparr>resp_status = 200, resp_statusText = lit ''OK'', resp_text = BodyText html\<rparr>"

definition not_found_response :: response where
  "not_found_response =
     \<lparr>resp_status = 404, resp_statusText = lit ''Not Found'',
      resp_text = BodyText (lit ''<h1>Not Found</h1>'')\<rparr>"

definition terminated :: js_error where
  "terminated = \<lparr>err_name = lit ''TypeError'', err_message = lit ''terminated''\<rparr>"

definition reset_response :: response where
  "reset_response =
     \<lparr>resp_status = 200, resp_statusText = lit ''OK'', resp_text = BodyError terminated\<rparr>"

definition endless_response :: response where
  "endless_response =
     \<lparr>resp_status = 200, resp_statusText = lit ''OK'', resp_text = BodyPending\<rparr>"

definition stack_overflow :: js_error where
  "stack_overflow =
     \<lparr>err_name = lit ''RangeError'', err_message = lit ''Maximum call stack size exceeded''\<rparr>"

definition fetch_failed :: js_error where
  "fetch_failed = \<lparr>err_name = lit ''TypeError'', err_message = lit ''fetch failed''\<rparr>"

definition sample_fetch :: "jsstring \<Rightarrow> net_event" where
  "sample_fetch url =
     (if url = lit ''http://books.toscrape.com/'' then Responds 120 (ok_response (lit ''<books>''))
      else if url = lit ''http://books.toscrape.com/broken/'' then
        Responds 130 (ok_response (lit ''<broken>''))
      else if url = lit ''http://example.com/'' then Responds 80 (ok_response (lit ''<example>''))
      else if url = lit ''http://example.com/?ref=books.toscrape.com'' then
        Responds 85 (ok_response (lit ''<example>''))
      else if url = lit ''http://example.com/plain'' then Responds 70 (ok_response (lit ''<p>''))
      else if url = lit ''http://example.com/missing'' then Responds 95 not_found_response
      else if url = lit ''http://slow.example/'' then Responds 20000 (ok_response (lit ''<example>''))
      else if url = lit ''http://example.com/reset'' then Responds 60 reset_response
      else if url = lit ''http://example.com/deep'' then Responds 65 (ok_response (lit ''<deep>''))
      else if url = lit ''http://example.com/endless'' then Responds 100 endless_response
      else Breaks 3 fetch_failed)"

definition sample_load :: "jsstring \<Rightarrow> js_error + document" where
  "sample_load html =
     (if html = lit ''<books>'' then Inr books_doc
      else if html = lit ''<broken>'' then Inr broken_doc
      else if html = lit ''<example>'' then Inr example_doc
      else if html = lit ''<deep>'' then Inl stack_overflow
      else Inr empty_doc)"

definition sample_env :: env where
  "sample_env =
     \<lparr>fetch = sample_fetch, cheerio_load = sample_load, URL_href = sample_resolve\<rparr>"

definition sample_page_env :: "(outcome list) page_env" where
  "sample_page_env =
     \<lparr>JSON_parse = (\<lambda>s. if s = lit ''[]'' then Inr []
                         else Inl \<lparr>err_name = lit ''SyntaxError'',
                                   err_message = lit ''Unexpected end of JSON input''\<rparr>),
      displayResults = (\<lambda>results. Inr (lit ''<p>No results found or provided.</p>''))\<rparr>"

section \<open>Strings, slots and the try block: auxiliary facts\<close>

lemma includes_js_iff:
  "includes_js s n \<longleftrightarrow> (\<exists>pre post. s = pre @ n @ post)"
proof (induction s)
  case Nil
  then show ?case by auto
next
  case (Cons c cs)
  show ?case
  proof
    assume "includes_js (c # cs) n"
    then consider "prefix n (c # cs)" | "includes_js cs n" by auto
    then show "\<exists>pre post. c # cs = pre @ n @ post"
    proof cases
      case 1
      then obtain post where "c # cs = n @ post" by (auto simp: prefix_def)
      then have "c # cs = [] @ n @ post" by simp
      then show ?thesis by blast
    next
      case 2
      then obtain pre post where "cs = pre @ n @ post" using Cons.IH by blast
      then have "c # cs = (c # pre) @ n @ post" by simp
      then show ?thesis by blast
    qed
  next
    assume "\<exists>pre post. c # cs = pre @ n @ post"
    then obtain pre post where eq: "c # cs = pre @ n @ post" by blast
    show "includes_js (c # cs) n"
    proof (cases pre)
      case Nil
      then have "prefix n (c # cs)" using eq by (simp add: prefix_def)
      then show ?thesis by simp
    next
      case (Cons p ps)
      then have "cs = ps @ n @ post" using eq by simp
      then have "includes_js cs n" using Cons.IH by blast
      then show ?thesis by simp
    qed
  qed
qed

lemma trim_empty_iff: "trim s = [] \<longleftrightarrow> (\<forall>c\<in>set s. is_ws c)"
proof -
  have "trim s = [] \<longleftrightarrow> dropWhile is_ws (rev (dropWhile is_ws s)) = []"
    by (simp add: trim_def)
  also have "\<dots> \<longleftrightarrow> (\<forall>c\<in>set (dropWhile is_ws s). is_ws c)"
    by simp
  also have "\<dots> \<longleftrightarrow> dropWhile is_ws s = []"
    by (metis dropWhile_eq_Nil_conv dropWhile_idem)
  also have "\<dots> \<longleftrightarrow> (\<forall>c\<in>set s. is_ws c)"
    by simp
  finally show ?thesis .
qed

lemma show_nat_404: "show_nat 404 = lit ''404''"
  by (simp add: show_nat.simps lit_def)




lemma includes_js_middle: "includes_js (pre @ n @ post) n"
  by (auto simp: includes_js_iff)


lemma lit_Error_not_Abort: "lit ''Error'' \<noteq> lit ''AbortError''"
  by (simp add: lit_def)

lemma abort_error_caught: "catch_message abort_error = lit ''Request timed out''"
  by (simp add: catch_message_def abort_error_def)

lemma scrapeUrl_try_url:
  "scrapeUrl_try env url = Some (Inr out) \<Longrightarrow> outcome_url out = url"
  by (auto simp: scrapeUrl_try_def split: sum.splits if_splits body_read.splits)

lemma scrapeUrl_try_ends:
  "body_read_ends env url \<Longrightarrow> scrapeUrl_try env url \<noteq> None"
  by (auto simp: body_read_ends_def scrapeUrl_try_def fetch_signal_def timeout_ms_def
      split: net_event.splits sum.splits if_splits body_read.splits)

lemma scrapeUrl_returns:
  assumes "body_read_ends env url"
  shows "\<exists>out. scrapeUrl env url = Some (Inr out) \<and> outcome_url out = url"
proof -
  obtain res where res: "scrapeUrl_try env url = Some res"
    using scrapeUrl_try_ends [OF assms] by blast
  show ?thesis
  proof (cases res)
    case (Inl e)
    then show ?thesis using res by (simp add: scrapeUrl_def catch_outcome_def)
  next
    case (Inr out)
    then show ?thesis using res scrapeUrl_try_url [of env url out] by (simp add: scrapeUrl_def)
  qed
qed

lemma scrapeUrl_caught:
  "scrapeUrl_try env url = Some (Inl e) \<Longrightarrow>
   scrapeUrl env url = Some (Inr (Failed url (catch_message e)))"
  by (simp add: scrapeUrl_def catch_outcome_def)

lemma scrapeUrl_passed:
  "scrapeUrl_try env url = Some (Inr out) \<Longrightarrow> scrapeUrl env url = Some (Inr out)"
  by (simp add: scrapeUrl_def)

section \<open>Timeout and HTTP errors\<close>

text \<open>
  C3. When the 15000 ms timer fires before the request has settled (the network stays
  silent, or would have answered or failed only later than that), \<open>scrapeUrl\<close> returns the
  failed outcome for that URL whose error is exactly "Request timed out".
\<close>

theorem scrapeUrl_timeout:
  assumes "fetch env url = Silent
     \<or> (\<exists>t r. fetch env url = Responds t r \<and> 15000 < t)
     \<or> (\<exists>t e. fetch env url = Breaks t e \<and> 15000 < t)"
  shows "scrapeUrl env url = Some (Inr (Failed url (lit ''Request timed out'')))"
proof -
  have "fetch_signal timeout_ms (fetch env url) = Inl abort_error"
    using assms by (auto simp: fetch_signal_def timeout_ms_def)
  then have "scrapeUrl_try env url = Some (Inl abort_error)"
    by (simp add: scrapeUrl_try_def)
  then show ?thesis
    by (simp add: scrapeUrl_caught abort_error_caught)
qed

theorem scrapeUrl_timeout_witness:
  "fetch sample_env (lit ''http://slow.example/'') = Responds 20000 (ok_response (lit ''<example>''))
   \<and> scrapeUrl sample_env (lit ''http://slow.example/'')
       = Some (Inr (Failed (lit ''http://slow.example/'') (lit ''Request timed out'')))"
proof -
  have f: "fetch sample_env (lit ''http://slow.example/'')
           = Responds 20000 (ok_response (lit ''<example>''))"
    by (simp add: sample_env_def sample_fetch_def lit_def)
  then have "\<exists>t r. fetch sample_env (lit ''http://slow.example/'') = Responds t r \<and> 15000 < t"
    by simp
  then show ?thesis
    using f scrapeUrl_timeout [of sample_env "lit ''http://slow.example/''"] by blast
qed


text \<open>
  C4. When the request is answered in time with a status outside 200..299, \<open>scrapeUrl\<close>
  returns, from that single response, the failed outcome for that URL with the error
  "Failed to fetch <url>: <status> <statusText>"; for status 404 the error contains "404".
\<close>

theorem scrapeUrl_http_error:
  assumes "fetch env url = Responds t r" and "t < 15000"
    and "resp_status r < 200 \<or> 299 < resp_status r"
  shows "scrapeUrl env url =
      Some (Inr (Failed url (lit ''Failed to fetch '' @ url @ lit '': ''
             @ show_nat (resp_status r) @ lit '' '' @ resp_statusText r)))
    \<and> (resp_status r = 404 \<longrightarrow>
         (\<exists>msg. scrapeUrl env url = Some (Inr (Failed url msg)) \<and> includes_js msg (lit ''404'')))"
proof -
  let ?msg = "lit ''Failed to fetch '' @ url @ lit '': ''
             @ show_nat (resp_status r) @ lit '' '' @ resp_statusText r"
  have "fetch_signal timeout_ms (fetch env url) = Inr r"
    using assms(1,2) by (simp add: fetch_signal_def timeout_ms_def)
  moreover have "\<not> resp_ok r"
    using assms(3) by (auto simp: resp_ok_def)
  ultimately have "scrapeUrl_try env url
      = Some (Inl \<lparr>err_name = lit ''Error'', err_message = ?msg\<rparr>)"
    by (simp add: scrapeUrl_try_def)
  then have res: "scrapeUrl env url = Some (Inr (Failed url ?msg))"
    by (simp add: scrapeUrl_caught catch_message_def lit_Error_not_Abort)
  have "includes_js ?msg (lit ''404'')" if "resp_status r = 404"
  proof -
    have "?msg = (lit ''Failed to fetch '' @ url @ lit '': '') @ lit ''404''
                   @ (lit '' '' @ resp_statusText r)"
      using that by (simp add: show_nat_404)
    then show ?thesis
      using includes_js_middle by metis
  qed
  then show ?thesis using res by blast
qed

theorem scrapeUrl_http_error_witness:
  "fetch sample_env (lit ''http://example.com/missing'') = Responds 95 not_found_response
   \<and> scrapeUrl sample_env (lit ''http://example.com/missing'')
       = Some (Inr (Failed (lit ''http://example.com/missing'')
               (lit ''Failed to fetch http://example.com/missing: 404 Not Found'')))
   \<and> includes_js (lit ''Failed to fetch http://example.com/missing: 404 Not Found'') (lit ''404'')"
proof -
  have f: "fetch sample_env (lit ''http://example.com/missing'') = Responds 95 not_found_response"
    by (simp add: sample_env_def sample_fetch_def lit_def)
  have s: "resp_status not_found_response = 404"
    "resp_statusText not_found_response = lit ''Not Found''"
    by (simp_all add: not_found_response_def)
  have m: "lit ''Failed to fetch '' @ lit ''http://example.com/missing'' @ lit '': ''
             @ show_nat 404 @ lit '' '' @ lit ''Not Found''
           = lit ''Failed to fetch http://example.com/missing: 404 Not Found''"
    by (simp add: show_nat_404) (simp add: lit_def)
  show ?thesis
    using scrapeUrl_http_error [OF f] f s m
    by auto
qed

section \<open>Request validation\<close>




section \<open>Extraction policies\<close>

lemma blank_iff_trim: "blank s \<longleftrightarrow> trim s = []"
  by (simp add: blank_def trim_empty_iff list_all_iff)

lemma book_callback_resolvable:
  assumes "hrefs_resolve env url [el]"
  shows "book_callback env url el records = Inr (records @ pod_records env url el)"
  using assms
  by (auto simp: hrefs_resolve_def book_callback_def absoluteLink_of_def pod_records_def truthy_def
      split: option.splits sum.splits)

lemma each_pod_resolvable:
  assumes "hrefs_resolve env url pods"
  shows "each_pod env url pods records = Inr (records @ concat (map (pod_records env url) pods))"
  using assms
proof (induction pods arbitrary: records)
  case Nil
  then show ?case by simp
next
  case (Cons el els)
  have "hrefs_resolve env url [el]" and rest: "hrefs_resolve env url els"
    using Cons.prems by (simp_all add: hrefs_resolve_def)
  then have "book_callback env url el records = Inr (records @ pod_records env url el)"
    by (simp add: book_callback_resolvable)
  then show ?case
    by (simp add: Cons.IH [OF rest])
qed

lemma scrapeUrl_try_loaded:
  assumes "fetch env url = Responds t r" and "t < 15000" and "resp_ok r"
    and "resp_text r = BodyText html" and "cheerio_load env html = Inr doc"
  shows "scrapeUrl_try env url =
     (if includes_js url books_host then
        (case each_pod env url (product_pods doc) [] of
           Inl e \<Rightarrow> Some (Inl e)
         | Inr records \<Rightarrow> Some (Inr (Success url records)))
      else Some (Inr (Success url (generic_records doc))))"
  using assms by (simp add: scrapeUrl_try_def fetch_signal_def timeout_ms_def)

text \<open>
  C5. For a URL that does not contain "books.toscrape.com", once the page has been fetched
  in time with a 2xx status, read and parsed, the outcome is a success. It holds exactly
  one record, \<open>{title, source: "Generic H1 scrape"}\<close> with the trimmed text of the first
  \<open>h1\<close> as title, when that trimmed text is non-empty, and no record when the first
  \<open>h1\<close> is blank or the document has no \<open>h1\<close>.
\<close>

theorem fallback_policy:
  assumes "fetch env url = Responds t r" and "t < 15000"
    and "200 \<le> resp_status r \<and> resp_status r \<le> 299"
    and "resp_text r = BodyText html" and "cheerio_load env html = Inr doc"
    and "\<not> includes_js url (lit ''books.toscrape.com'')"
  shows "scrapeUrl env url =
      Some (Inr (Success url
        (case h1_texts doc of
           [] \<Rightarrow> []
         | heading # others \<Rightarrow>
             if trim heading \<noteq> [] then
               [[(lit ''title'', trim heading), (lit ''source'', lit ''Generic H1 scrape'')]]
             else [])))"
proof -
  have "resp_ok r" using assms(3) by (simp add: resp_ok_def)
  then have "scrapeUrl_try env url = Some (Inr (Success url (generic_records doc)))"
    using scrapeUrl_try_loaded [OF assms(1,2) _ assms(4,5)] assms(6)
    by (simp add: books_host_def)
  moreover have "generic_records doc =
        (case h1_texts doc of
           [] \<Rightarrow> []
         | heading # others \<Rightarrow>
             if trim heading \<noteq> [] then
               [[(lit ''title'', trim heading), (lit ''source'', lit ''Generic H1 scrape'')]]
             else [])"
    by (simp add: generic_records_def genericTitle_def trim_def split: list.splits)
  ultimately show ?thesis by (simp add: scrapeUrl_passed)
qed

theorem fallback_policy_witness:
  "\<not> includes_js (lit ''http://example.com/'') (lit ''books.toscrape.com'')
   \<and> h1_texts example_doc = [lit '' Example Domain '', lit ''More'']
   \<and> scrapeUrl sample_env (lit ''http://example.com/'')
       = Some (Inr (Success (lit ''http://example.com/'')
               [[(lit ''title'', lit ''Example Domain''), (lit ''source'', lit ''Generic H1 scrape'')]]))
   \<and> \<not> includes_js (lit ''http://example.com/plain'') (lit ''books.toscrape.com'')
   \<and> h1_texts empty_doc = []
   \<and> scrapeUrl sample_env (lit ''http://example.com/plain'')
       = Some (Inr (Success (lit ''http://example.com/plain'') []))"
proof -
  have f1: "fetch sample_env (lit ''http://example.com/'') = Responds 80 (ok_response (lit ''<example>''))"
    by (simp add: sample_env_def sample_fetch_def lit_def)
  have f2: "fetch sample_env (lit ''http://example.com/plain'') = Responds 70 (ok_response (lit ''<p>''))"
    by (simp add: sample_env_def sample_fetch_def lit_def)
  have l1: "cheerio_load sample_env (lit ''<example>'') = Inr example_doc"
    by (simp add: sample_env_def sample_load_def lit_def)
  have l2: "cheerio_load sample_env (lit ''<p>'') = Inr empty_doc"
    by (simp add: sample_env_def sample_load_def lit_def)
  have n1: "\<not> includes_js (lit ''http://example.com/'') (lit ''books.toscrape.com'')"
    by (simp add: lit_def)
  have n2: "\<not> includes_js (lit ''http://example.com/plain'') (lit ''books.toscrape.com'')"
    by (simp add: lit_def)
  have t: "trim (lit '' Example Domain '') = lit ''Example Domain''"
    by (simp add: trim_def lit_def is_ws_def)
  have h1: "h1_texts example_doc = [lit '' Example Domain '', lit ''More'']"
    by (simp add: example_doc_def)
  have h2: "h1_texts empty_doc = []"
    by (simp add: empty_doc_def)
  have "scrapeUrl sample_env (lit ''http://example.com/'')
       = Some (Inr (Success (lit ''http://example.com/'')
               [[(lit ''title'', lit ''Example Domain''), (lit ''source'', lit ''Generic H1 scrape'')]]))"
    using fallback_policy [OF f1 _ _ _ l1 n1] h1 t
    by (simp add: ok_response_def) (simp add: lit_def)
  moreover have "scrapeUrl sample_env (lit ''http://example.com/plain'')
       = Some (Inr (Success (lit ''http://example.com/plain'') []))"
    using fallback_policy [OF f2 _ _ _ l2 n2] h2
    by (simp add: ok_response_def)
  ultimately show ?thesis using n1 n2 h1 h2 by blast
qed

text \<open>
  C9. The policy is selected by a substring test on the whole URL string. Once the page
  has been fetched and parsed, a URL that contains "books.toscrape.com" at any position
  (also in the path or query of another host) gets the result of the product-container
  loop, and a URL that does not contain it gets the generic records.
\<close>

theorem policy_selection:
  assumes "fetch env url = Responds t r" and "t < 15000"
    and "200 \<le> resp_status r \<and> resp_status r \<le> 299"
    and "resp_text r = BodyText html" and "cheerio_load env html = Inr doc"
  shows "((\<exists>pre post. url = pre @ lit ''books.toscrape.com'' @ post) \<longrightarrow>
            scrapeUrl env url =
              (case each_pod env url (product_pods doc) [] of
                 Inl e \<Rightarrow> Some (Inr (catch_outcome url e))
               | Inr records \<Rightarrow> Some (Inr (Success url records))))
       \<and> (\<not> (\<exists>pre post. url = pre @ lit ''books.toscrape.com'' @ post) \<longrightarrow>
            scrapeUrl env url = Some (Inr (Success url (generic_records doc))))"
proof -
  have ok: "resp_ok r" using assms(3) by (simp add: resp_ok_def)
  have sel: "includes_js url books_host
             \<longleftrightarrow> (\<exists>pre post. url = pre @ lit ''books.toscrape.com'' @ post)"
    by (simp add: includes_js_iff books_host_def)
  show ?thesis
    unfolding sel [symmetric]
    by (simp add: scrapeUrl_def scrapeUrl_try_loaded [OF assms(1,2) ok assms(4,5)]
        split: sum.splits)
qed

theorem policy_selection_witness:
  "lit ''http://example.com/?ref=books.toscrape.com''
     = lit ''http://example.com/?ref='' @ lit ''books.toscrape.com'' @ []
   \<and> scrapeUrl sample_env (lit ''http://example.com/?ref=books.toscrape.com'')
       = Some (Inr (Success (lit ''http://example.com/?ref=books.toscrape.com'') []))
   \<and> \<not> (\<exists>pre post. lit ''http://example.com/'' = pre @ lit ''books.toscrape.com'' @ post)
   \<and> scrapeUrl sample_env (lit ''http://example.com/'')
       = Some (Inr (Success (lit ''http://example.com/'')
               [[(lit ''title'', lit ''Example Domain''), (lit ''source'', lit ''Generic H1 scrape'')]]))"
proof -
  let ?u = "lit ''http://example.com/?ref=books.toscrape.com''"
  let ?v = "lit ''http://example.com/''"
  have f1: "fetch sample_env ?u = Responds 85 (ok_response (lit ''<example>''))"
    by (simp add: sample_env_def sample_fetch_def lit_def)
  have f2: "fetch sample_env ?v = Responds 80 (ok_response (lit ''<example>''))"
    by (simp add: sample_env_def sample_fetch_def lit_def)
  have l: "cheerio_load sample_env (lit ''<example>'') = Inr example_doc"
    by (simp add: sample_env_def sample_load_def lit_def)
  have st: "200 \<le> resp_status (ok_response (lit ''<example>''))
            \<and> resp_status (ok_response (lit ''<example>'')) \<le> 299"
    "resp_text (ok_response (lit ''<example>'')) = BodyText (lit ''<example>'')"
    by (simp_all add: ok_response_def)
  have split_u: "?u = lit ''http://example.com/?ref='' @ lit ''books.toscrape.com'' @ []"
    by (simp add: lit_def)
  have "\<not> includes_js ?v (lit ''books.toscrape.com'')"
    by (simp add: lit_def)
  then have no_v: "\<not> (\<exists>pre post. ?v = pre @ lit ''books.toscrape.com'' @ post)"
    by (simp add: includes_js_iff)
  have g: "generic_records example_doc
           = [[(lit ''title'', lit ''Example Domain''), (lit ''source'', lit ''Generic H1 scrape'')]]"
    by (simp add: generic_records_def genericTitle_def example_doc_def trim_def lit_def is_ws_def)
  have p: "each_pod sample_env ?u (product_pods example_doc) [] = Inr []"
    by (simp add: example_doc_def)
  have "\<exists>pre post. ?u = pre @ lit ''books.toscrape.com'' @ post"
    using split_u by blast
  then have "scrapeUrl sample_env ?u = Some (Inr (Success ?u []))"
    using policy_selection [OF f1 _ st l] p by simp
  moreover have "scrapeUrl sample_env ?v
       = Some (Inr (Success ?v
               [[(lit ''title'', lit ''Example Domain''), (lit ''source'', lit ''Generic H1 scrape'')]]))"
    using policy_selection [OF f2 _ st l] no_v g by simp
  ultimately show ?thesis using split_u no_v by blast
qed

text \<open>
  C10. The required-field test reads the untrimmed values. A container whose title or
  price is non-empty but blank, and whose other fields are present with a link that
  resolves, passes the test; the record is pushed, and the blank field is the empty
  string in it.
\<close>

theorem blank_field_passes_check:
  assumes "h3a_title el = Some title" and "title \<noteq> []" and "price_text el \<noteq> []"
    and "h3a_href el = Some h" and "h \<noteq> []" and "URL_href env h url = Inr link" and "link \<noteq> []"
    and "blank title \<or> blank (price_text el)"
  shows "book_callback env url el records =
      Inr (records @ [[(lit ''title'', trim title), (lit ''price'', trim (price_text el)),
                       (lit ''link'', link)]])
    \<and> (blank title \<longrightarrow> trim title = [])
    \<and> (blank (price_text el) \<longrightarrow> trim (price_text el) = [])"
  using assms(1-7)
  by (simp add: book_callback_def absoluteLink_of_def truthy_def blank_iff_trim)

theorem blank_field_passes_check_witness:
  "blank (lit ''  '')
   \<and> h3a_title blank_title_pod = Some (lit ''  '')
   \<and> book_callback sample_env (lit ''http://books.toscrape.com/'') blank_title_pod [] =
       Inr [[(lit ''title'', []), (lit ''price'', 0xA3 # lit ''50.10''),
             (lit ''link'', lit ''http://books.toscrape.com/catalogue/soumission_998/index.html'')]]"
proof -
  let ?u = "lit ''http://books.toscrape.com/''"
  let ?h = "lit ''catalogue/soumission_998/index.html''"
  have b: "blank (lit ''  '')"
    by (simp add: blank_def lit_def is_ws_def)
  have t: "h3a_title blank_title_pod = Some (lit ''  '')" "lit ''  '' \<noteq> []"
    by (simp_all add: blank_title_pod_def lit_def)
  have p: "price_text blank_title_pod = 0xA3 # lit ''50.10''" "price_text blank_title_pod \<noteq> []"
    by (simp_all add: blank_title_pod_def)
  have h: "h3a_href blank_title_pod = Some ?h" "?h \<noteq> []"
    by (simp_all add: blank_title_pod_def lit_def)
  have r: "URL_href sample_env ?h ?u = Inr (?u @ ?h)" "?u @ ?h \<noteq> []"
    by (simp_all add: sample_env_def sample_resolve_def lit_def)
  have tp: "trim (0xA3 # lit ''50.10'') = 0xA3 # lit ''50.10''"
    by (simp add: trim_def lit_def is_ws_def)
  have cat: "?u @ ?h = lit ''http://books.toscrape.com/catalogue/soumission_998/index.html''"
    by (simp add: lit_def)
  have "blank (lit ''  '') \<or> blank (price_text blank_title_pod)"
    using b by simp
  from blank_field_passes_check [OF t(1) t(2) p(2) h(1) h(2) r(1) r(2) this, of "[]"]
  show ?thesis using b t(1) p(1) tp cat by simp
qed

lemma lacks_field_no_record: "lacks_field el \<Longrightarrow> pod_records env url el = []"
  by (auto simp: lacks_field_def pod_records_def truthy_def split: option.splits)

lemma well_formed_one_record:
  assumes "h3a_title el = Some t" and "\<not> blank t" and "\<not> blank (price_text el)"
    and "h3a_href el = Some h" and "h \<noteq> []" and "URL_href env h url = Inr l" and "l \<noteq> []"
  shows "pod_records env url el =
           [[(lit ''title'', trim t), (lit ''price'', trim (price_text el)), (lit ''link'', l)]]
         \<and> trim t \<noteq> [] \<and> trim (price_text el) \<noteq> []"
proof -
  have "t \<noteq> []" and "price_text el \<noteq> []"
    using assms(2,3) by (auto simp: blank_def)
  then show ?thesis
    using assms by (simp add: pod_records_def blank_iff_trim)
qed

text \<open>
  C6, as stated, fails. The link of a container is resolved before its fields are tested,
  so a container without a title whose href cannot be resolved makes \<open>new URL\<close> throw:
  the container is not skipped, the record of the well-formed container before it is
  lost, and the outcome for the URL is a failure.
\<close>

theorem books_policy_counterexample:
  "includes_js (lit ''http://books.toscrape.com/broken/'') (lit ''books.toscrape.com'')
   \<and> fetch sample_env (lit ''http://books.toscrape.com/broken/'')
       = Responds 130 (ok_response (lit ''<broken>''))
   \<and> cheerio_load sample_env (lit ''<broken>'') = Inr broken_doc
   \<and> product_pods broken_doc = [attic_pod, untitled_bad_href_pod]
   \<and> h3a_title untitled_bad_href_pod = None
   \<and> lacks_field untitled_bad_href_pod
   \<and> scrapeUrl sample_env (lit ''http://books.toscrape.com/broken/'')
       = Some (Inr (Failed (lit ''http://books.toscrape.com/broken/'') (lit ''Invalid URL'')))"
proof -
  let ?u = "lit ''http://books.toscrape.com/broken/''"
  have i: "includes_js ?u (lit ''books.toscrape.com'')"
    by (simp add: lit_def)
  have f: "fetch sample_env ?u = Responds 130 (ok_response (lit ''<broken>''))"
    by (simp add: sample_env_def sample_fetch_def lit_def)
  have l: "cheerio_load sample_env (lit ''<broken>'') = Inr broken_doc"
    by (simp add: sample_env_def sample_load_def lit_def)
  have p: "product_pods broken_doc = [attic_pod, untitled_bad_href_pod]"
    by (simp add: broken_doc_def)
  have t: "h3a_title untitled_bad_href_pod = None" "lacks_field untitled_bad_href_pod"
    by (simp_all add: untitled_bad_href_pod_def lacks_field_def truthy_def)
  have a: "book_callback sample_env ?u attic_pod []
           = Inr [[(lit ''title'', trim (lit ''A Light in the Attic'')),
                   (lit ''price'', trim (0xA3 # lit ''51.77'')),
                   (lit ''link'', ?u @ lit ''catalogue/a-light-in-the-attic_1000/index.html'')]]"
    by (simp add: book_callback_def absoluteLink_of_def attic_pod_def truthy_def
        sample_env_def sample_resolve_def) (simp add: lit_def)
  have b: "book_callback sample_env ?u untitled_bad_href_pod records = Inl invalid_url" for records
    by (simp add: book_callback_def absoluteLink_of_def untitled_bad_href_pod_def
        sample_env_def sample_resolve_def) (simp add: lit_def)
  have "each_pod sample_env ?u (product_pods broken_doc) [] = Inl invalid_url"
    by (simp add: p a b)
  then have "scrapeUrl_try sample_env ?u = Some (Inl invalid_url)"
    using i by (simp add: scrapeUrl_try_loaded [OF f _ _ _ l] ok_response_def resp_ok_def
        books_host_def)
  then have "scrapeUrl sample_env ?u = Some (Inr (Failed ?u (catch_message invalid_url)))"
    by (rule scrapeUrl_caught)
  moreover have "catch_message invalid_url = lit ''Invalid URL''"
    by (simp add: catch_message_def invalid_url_def) (simp add: lit_def)
  ultimately have "scrapeUrl sample_env ?u = Some (Inr (Failed ?u (lit ''Invalid URL'')))"
    by simp
  then show ?thesis using i f l p t by blast
qed

text \<open>
  C6, amended. For a URL that contains "books.toscrape.com", once the page has been
  fetched and parsed, and provided every href that is present and non-empty can be
  resolved against the request URL, the outcome is a success whose records are the
  contributions of the containers in document order: a container that lacks a required
  field contributes nothing, and a container with a non-blank title, a non-blank price
  and an href that resolves to a non-empty link contributes exactly one record, with
  non-empty trimmed title and price and the resolved link.
\<close>

theorem books_policy:
  assumes "fetch env url = Responds t r" and "t < 15000"
    and "200 \<le> resp_status r \<and> resp_status r \<le> 299"
    and "resp_text r = BodyText html" and "cheerio_load env html = Inr doc"
    and "includes_js url (lit ''books.toscrape.com'')"
    and "hrefs_resolve env url (product_pods doc)"
  shows "scrapeUrl env url =
      Some (Inr (Success url (concat (map (pod_records env url) (product_pods doc)))))
    \<and> (\<forall>el\<in>set (product_pods doc). lacks_field el \<longrightarrow> pod_records env url el = [])
    \<and> (\<forall>el\<in>set (product_pods doc). \<forall>title h link.
          h3a_title el = Some title \<and> \<not> blank title \<and> \<not> blank (price_text el)
          \<and> h3a_href el = Some h \<and> h \<noteq> [] \<and> URL_href env h url = Inr link \<and> link \<noteq> []
          \<longrightarrow> pod_records env url el =
                [[(lit ''title'', trim title), (lit ''price'', trim (price_text el)),
                  (lit ''link'', link)]]
              \<and> trim title \<noteq> [] \<and> trim (price_text el) \<noteq> [])"
proof -
  have ok: "resp_ok r" using assms(3) by (simp add: resp_ok_def)
  have "scrapeUrl_try env url =
      Some (Inr (Success url (concat (map (pod_records env url) (product_pods doc)))))"
    using assms(6)
    by (simp add: scrapeUrl_try_loaded [OF assms(1,2) ok assms(4,5)] books_host_def
        each_pod_resolvable [OF assms(7)])
  then have "scrapeUrl env url =
      Some (Inr (Success url (concat (map (pod_records env url) (product_pods doc)))))"
    by (rule scrapeUrl_passed)
  then show ?thesis
    using lacks_field_no_record well_formed_one_record by blast
qed

theorem books_policy_witness:
  "hrefs_resolve sample_env (lit ''http://books.toscrape.com/'') (product_pods books_doc)
   \<and> product_pods books_doc = [attic_pod, unpriced_pod, blank_title_pod]
   \<and> lacks_field unpriced_pod
   \<and> scrapeUrl sample_env (lit ''http://books.toscrape.com/'')
       = Some (Inr (Success (lit ''http://books.toscrape.com/'')
           [[(lit ''title'', lit ''A Light in the Attic''),
             (lit ''price'', 0xA3 # lit ''51.77''),
             (lit ''link'',
              lit ''http://books.toscrape.com/catalogue/a-light-in-the-attic_1000/index.html'')],
            [(lit ''title'', []),
             (lit ''price'', 0xA3 # lit ''50.10''),
             (lit ''link'',
              lit ''http://books.toscrape.com/catalogue/soumission_998/index.html'')]]))"
proof -
  let ?u = "lit ''http://books.toscrape.com/''"
  have i: "includes_js ?u (lit ''books.toscrape.com'')"
    by (simp add: lit_def)
  have f: "fetch sample_env ?u = Responds 120 (ok_response (lit ''<books>''))"
    by (simp add: sample_env_def sample_fetch_def lit_def)
  have l: "cheerio_load sample_env (lit ''<books>'') = Inr books_doc"
    by (simp add: sample_env_def sample_load_def lit_def)
  have st: "200 \<le> resp_status (ok_response (lit ''<books>''))
            \<and> resp_status (ok_response (lit ''<books>'')) \<le> 299"
    "resp_text (ok_response (lit ''<books>'')) = BodyText (lit ''<books>'')"
    by (simp_all add: ok_response_def)
  have p: "product_pods books_doc = [attic_pod, unpriced_pod, blank_title_pod]"
    by (simp add: books_doc_def)
  have hr: "hrefs_resolve sample_env ?u (product_pods books_doc)"
    by (simp add: p hrefs_resolve_def attic_pod_def unpriced_pod_def blank_title_pod_def
        sample_env_def sample_resolve_def) (simp add: lit_def)
  have lk: "lacks_field unpriced_pod"
    by (simp add: lacks_field_def unpriced_pod_def)
  have r1: "pod_records sample_env ?u attic_pod =
      [[(lit ''title'', lit ''A Light in the Attic''), (lit ''price'', 0xA3 # lit ''51.77''),
        (lit ''link'',
         lit ''http://books.toscrape.com/catalogue/a-light-in-the-attic_1000/index.html'')]]"
    by (simp add: pod_records_def attic_pod_def sample_env_def sample_resolve_def)
      (simp add: lit_def trim_def is_ws_def)
  have r3: "pod_records sample_env ?u blank_title_pod =
      [[(lit ''title'', []), (lit ''price'', 0xA3 # lit ''50.10''),
        (lit ''link'', lit ''http://books.toscrape.com/catalogue/soumission_998/index.html'')]]"
    by (simp add: pod_records_def blank_title_pod_def sample_env_def sample_resolve_def)
      (simp add: lit_def trim_def is_ws_def)
  have lt: "(120::nat) < 15000"
    by simp
  note inst = books_policy [OF f lt st l i hr]
  have "unpriced_pod \<in> set (product_pods books_doc)"
    by (simp add: p)
  then have r2: "pod_records sample_env ?u unpriced_pod = []"
    using inst lk by blast
  have "scrapeUrl sample_env ?u =
      Some (Inr (Success ?u (concat (map (pod_records sample_env ?u) (product_pods books_doc)))))"
    using inst by blast
  then show ?thesis
    using hr p lk by (simp add: r1 r2 r3)
qed

section \<open>What scrapeUrl returns\<close>








lemma scrapeUrl_returns_iff: "scrapeUrl env url \<noteq> None \<longleftrightarrow> body_read_ends env url"
proof
  assume "body_read_ends env url"
  then show "scrapeUrl env url \<noteq> None" using scrapeUrl_returns by fastforce
next
  assume "scrapeUrl env url \<noteq> None"
  then have "scrapeUrl_try env url \<noteq> None"
    by (auto simp: scrapeUrl_def split: option.splits)
  then show "body_read_ends env url"
    by (auto simp: body_read_ends_def scrapeUrl_try_def fetch_signal_def timeout_ms_def
        split: net_event.splits)
qed




section \<open>The batch\<close>




section \<open>Stored results on the page\<close>

text \<open>
  C8, as stated, fails for the empty string: \<open>JSON.parse\<close> cannot parse it, the load
  routine shows the initial message, and the stored value is not cleared.
\<close>

theorem load_stored_counterexample:
  "JSON_parse sample_page_env []
     = Inl \<lparr>err_name = lit ''SyntaxError'', err_message = lit ''Unexpected end of JSON input''\<rparr>
   \<and> loadAndDisplayStoredResults sample_page_env \<lparr>stored = Some [], resultsArea = []\<rparr>
     = \<lparr>stored = Some [], resultsArea = initial_message\<rparr>"
  by (simp add: sample_page_env_def loadAndDisplayStoredResults_def lit_def)

text \<open>
  C8, amended. When nothing is stored or the stored value is the empty string, the load
  routine shows the initial message and leaves the storage as it is. When the stored
  value is non-empty and \<open>JSON.parse\<close> throws on it, the routine shows the "could not load"
  message and removes the stored value. In neither case does an exception leave the
  routine.
\<close>

theorem load_stored_fallback:
  "(stored pg = None \<or> stored pg = Some [] \<longrightarrow>
      loadAndDisplayStoredResults penv pg = pg\<lparr>resultsArea := initial_message\<rparr>)
   \<and> (\<forall>s e. stored pg = Some s \<and> s \<noteq> [] \<and> JSON_parse penv s = Inl e \<longrightarrow>
        loadAndDisplayStoredResults penv pg
          = pg\<lparr>stored := None, resultsArea := corrupted_message\<rparr>)"
  by (auto simp: loadAndDisplayStoredResults_def)

theorem load_stored_fallback_witness:
  "loadAndDisplayStoredResults sample_page_env \<lparr>stored = None, resultsArea = lit ''old''\<rparr>
     = \<lparr>stored = None, resultsArea = initial_message\<rparr>
   \<and> JSON_parse sample_page_env (lit ''{bad'')
     = Inl \<lparr>err_name = lit ''SyntaxError'', err_message = lit ''Unexpected end of JSON input''\<rparr>
   \<and> loadAndDisplayStoredResults sample_page_env
       \<lparr>stored = Some (lit ''{bad''), resultsArea = lit ''old''\<rparr>
     = \<lparr>stored = None, resultsArea = corrupted_message\<rparr>"
proof -
  let ?e = "\<lparr>err_name = lit ''SyntaxError'', err_message = lit ''Unexpected end of JSON input''\<rparr>"
  have p: "JSON_parse sample_page_env (lit ''{bad'') = Inl ?e"
    by (simp add: sample_page_env_def lit_def)
  have n: "lit ''{bad'' \<noteq> []"
    by (simp add: lit_def)
  have a: "loadAndDisplayStoredResults sample_page_env \<lparr>stored = None, resultsArea = lit ''old''\<rparr>
     = \<lparr>stored = None, resultsArea = initial_message\<rparr>"
    using load_stored_fallback [of "\<lparr>stored = None, resultsArea = lit ''old''\<rparr>" sample_page_env]
    by simp
  have b: "loadAndDisplayStoredResults sample_page_env
       \<lparr>stored = Some (lit ''{bad''), resultsArea = lit ''old''\<rparr>
     = \<lparr>stored = None, resultsArea = corrupted_message\<rparr>"
    using load_stored_fallback
      [of "\<lparr>stored = Some (lit ''{bad''), resultsArea = lit ''old''\<rparr>" sample_page_env] p n
    by simp
  show ?thesis using a p b by blast
qed

end
